theory Spec2Isabelle
  imports Main "HOL-Library.Word"
begin

section \<open>The atomic integer cell of AtomicShims\<close>

text \<open>
  The repository is one C translation unit, \<^verbatim>\<open>Sources/AtomicShims/AtomicShims.c\<close>, with
  its header. The header declares the cell,
  \<^verbatim>\<open>typedef struct AtomicInt { atomic_intptr_t value; } AtomicInt;\<close>
  and the unit defines three functions on a pointer to it, each a single call of a C11
  \<^verbatim>\<open><stdatomic.h>\<close> generic function with a fixed memory order:
  \<^verbatim>\<open>
  void store(AtomicInt *atomic_value, intptr_t value)
  { atomic_store_explicit(&atomic_value->value, value, __ATOMIC_RELAXED); }

  intptr_t load(AtomicInt *atomic_value)
  { return atomic_load_explicit(&atomic_value->value, __ATOMIC_ACQUIRE); }

  intptr_t exchange(AtomicInt *atomic_value, intptr_t value)
  { return atomic_exchange_explicit(&atomic_value->value, value, __ATOMIC_RELEASE); }
  \<close>
  The embedding is sequential: it describes one call, or a sequence of calls, made by one
  thread with no other thread touching the cell in between.
\<close>

subsection \<open>Data\<close>

text \<open>
  \<^verbatim>\<open>intptr_t\<close> is a signed integer as wide as a pointer. The width depends on the target,
  so it is the type parameter \<open>'a\<close> of the word type: \<open>64 word\<close> on a 64-bit target,
  \<open>32 word\<close> on a 32-bit one. \<open>sint\<close> reads the signed value.
\<close>

type_synonym 'a intptr_t = "'a word"

text \<open>
  The struct. Its one field is called \<^verbatim>\<open>value\<close> in the header; that word is reserved
  here, so the field is \<open>cell_value\<close>.
\<close>

record (overloaded) 'a AtomicInt =
  cell_value :: "'a intptr_t"

text \<open>
  The memory orders, under the names of the compiler's predefined macros that the source
  passes (\<^verbatim>\<open>__ATOMIC_RELAXED\<close> is \<^verbatim>\<open>memory_order_relaxed\<close>, and so on).
\<close>

datatype memory_order =
  ATOMIC_RELAXED | ATOMIC_CONSUME | ATOMIC_ACQUIRE | ATOMIC_RELEASE | ATOMIC_ACQ_REL | ATOMIC_SEQ_CST

text \<open>
  What one atomic access does to the object, as the C11 memory model names it: a write of
  a value, a read of a value, or a read-modify-write (value read, value written), each
  carrying the memory order it was issued with. The values are of type \<open>'v\<close>; the
  functions below use it at \<open>'a intptr_t\<close>.
\<close>

datatype 'v action =
  Atomic_store memory_order 'v
| Atomic_load memory_order 'v
| Atomic_rmw memory_order 'v 'v

fun order_of :: "'v action \<Rightarrow> memory_order" where
  "order_of (Atomic_store order w) = order"
| "order_of (Atomic_load order r) = order"
| "order_of (Atomic_rmw order r w) = order"

subsection \<open>The C11 generic functions the source calls\<close>

text \<open>
  These come from \<^verbatim>\<open><stdatomic.h>\<close>, not from the repository; they follow ISO C11 7.17.7.
  Each takes the content of the atomic object and returns the content afterwards together
  with the action performed (and the value handed back to the caller, for a load and an
  exchange). The standard forbids some orders: a store shall not be consume, acquire or
  acq_rel; a load shall not be release or acq_rel. Such a call is undefined behaviour,
  which is the result \<open>None\<close>.
\<close>

definition atomic_store_explicit ::
  "'a::len intptr_t \<Rightarrow> 'a intptr_t \<Rightarrow> memory_order \<Rightarrow> ('a intptr_t \<times> 'a intptr_t action) option" where
  "atomic_store_explicit obj desired order =
     (if order \<in> {ATOMIC_CONSUME, ATOMIC_ACQUIRE, ATOMIC_ACQ_REL} then None
      else Some (desired, Atomic_store order desired))"

definition atomic_load_explicit ::
  "'a::len intptr_t \<Rightarrow> memory_order \<Rightarrow> ('a intptr_t \<times> 'a intptr_t \<times> 'a intptr_t action) option" where
  "atomic_load_explicit obj order =
     (if order \<in> {ATOMIC_RELEASE, ATOMIC_ACQ_REL} then None
      else Some (obj, obj, Atomic_load order obj))"

definition atomic_exchange_explicit ::
  "'a::len intptr_t \<Rightarrow> 'a intptr_t \<Rightarrow> memory_order \<Rightarrow> ('a intptr_t \<times> 'a intptr_t \<times> 'a intptr_t action) option" where
  "atomic_exchange_explicit obj desired order =
     Some (obj, desired, Atomic_rmw order obj desired)"

subsection \<open>The three functions of AtomicShims.c\<close>

text \<open>
  The pointer argument becomes state passing: a function takes the struct that
  \<^verbatim>\<open>atomic_value\<close> points to and returns it as the call leaves it. The address
  \<^verbatim>\<open>&atomic_value->value\<close> becomes reading the field and writing it back.

  \<open>store\<close> returns \<^verbatim>\<open>void\<close>: its result is the struct and the action only. \<open>load\<close> and
  \<open>exchange\<close> return an \<^verbatim>\<open>intptr_t\<close>: their result is the returned value, the struct and
  the action.
\<close>

definition store :: "'a::len AtomicInt \<Rightarrow> 'a intptr_t \<Rightarrow> ('a AtomicInt \<times> 'a intptr_t action) option" where
  "store atomic_value v =
     (case atomic_store_explicit (cell_value atomic_value) v ATOMIC_RELAXED of
        None \<Rightarrow> None
      | Some (x, a) \<Rightarrow> Some (atomic_value\<lparr>cell_value := x\<rparr>, a))"

definition load :: "'a::len AtomicInt \<Rightarrow> ('a intptr_t \<times> 'a AtomicInt \<times> 'a intptr_t action) option" where
  "load atomic_value =
     (case atomic_load_explicit (cell_value atomic_value) ATOMIC_ACQUIRE of
        None \<Rightarrow> None
      | Some (r, x, a) \<Rightarrow> Some (r, atomic_value\<lparr>cell_value := x\<rparr>, a))"

definition exchange ::
  "'a::len AtomicInt \<Rightarrow> 'a intptr_t \<Rightarrow> ('a intptr_t \<times> 'a AtomicInt \<times> 'a intptr_t action) option" where
  "exchange atomic_value v =
     (case atomic_exchange_explicit (cell_value atomic_value) v ATOMIC_RELEASE of
        None \<Rightarrow> None
      | Some (r, x, a) \<Rightarrow> Some (r, atomic_value\<lparr>cell_value := x\<rparr>, a))"

section \<open>What each call computes\<close>

lemma store_eq:
  "store c v = Some (c\<lparr>cell_value := v\<rparr>, Atomic_store ATOMIC_RELAXED v)"
  by (simp add: store_def atomic_store_explicit_def)

lemma load_eq:
  "load c = Some (cell_value c, c, Atomic_load ATOMIC_ACQUIRE (cell_value c))"
  by (simp add: load_def atomic_load_explicit_def)

lemma exchange_eq:
  "exchange c v = Some (cell_value c, c\<lparr>cell_value := v\<rparr>, Atomic_rmw ATOMIC_RELEASE (cell_value c) v)"
  by (simp add: exchange_def atomic_exchange_explicit_def)

subsection \<open>Concrete calls on a 64-bit target\<close>

text \<open>
  The undefined calls of the library functions are real branches of the model; the three
  functions of the repository never reach them.
\<close>

lemma atomic_store_explicit_acquire_undefined:
  "atomic_store_explicit (0 :: 64 word) 1 ATOMIC_ACQUIRE = None"
  by (simp add: atomic_store_explicit_def)

lemma atomic_load_explicit_release_undefined:
  "atomic_load_explicit (0 :: 64 word) ATOMIC_RELEASE = None"
  by (simp add: atomic_load_explicit_def)

lemma store_example:
  "store \<lparr>cell_value = 0 :: 64 word\<rparr> 42 = Some (\<lparr>cell_value = 42\<rparr>, Atomic_store ATOMIC_RELAXED 42)"
  by (simp add: store_eq)

lemma load_example:
  "load \<lparr>cell_value = 42 :: 64 word\<rparr> = Some (42, \<lparr>cell_value = 42\<rparr>, Atomic_load ATOMIC_ACQUIRE 42)"
  by (simp add: load_eq)

lemma exchange_example:
  "exchange \<lparr>cell_value = 3 :: 64 word\<rparr> 7 = Some (3, \<lparr>cell_value = 7\<rparr>, Atomic_rmw ATOMIC_RELEASE 3 7)"
  by (simp add: exchange_eq)

section \<open>The properties of the specification\<close>

text \<open>
  In every statement \<open>c\<close> is an arbitrary cell and \<open>v\<close>, \<open>v1\<close>, \<open>v2\<close> are arbitrary
  \<^verbatim>\<open>intptr_t\<close> values of an arbitrary width. A result \<open>Some \<dots>\<close> says that the call is
  defined and returns; the actions \<open>a\<close>, \<open>a1\<close>, \<dots> are the accesses performed.
\<close>

text \<open>
  C1. Store-then-load round trip: for every value \<open>v\<close> and every cell, \<open>store\<close> of \<open>v\<close>
  followed directly by \<open>load\<close> on the resulting cell returns \<open>v\<close>.
\<close>

theorem store_then_load:
  "\<exists>c1 a1 a2. store c v = Some (c1, a1) \<and> load c1 = Some (v, c1, a2)"
  by (simp add: store_eq load_eq)

text \<open>
  C2. For all values \<open>v1\<close>, \<open>v2\<close> and every cell: after \<open>store\<close> of \<open>v1\<close>, \<open>exchange\<close>
  with \<open>v2\<close> returns \<open>v1\<close>, and a \<open>load\<close> after that returns \<open>v2\<close>.
\<close>

theorem store_exchange_load:
  "\<exists>c1 a1 c2 a2 a3.
     store c v1 = Some (c1, a1) \<and>
     exchange c1 v2 = Some (v1, c2, a2) \<and>
     load c2 = Some (v2, c2, a3)"
  by (simp add: store_eq load_eq exchange_eq)

text \<open>
  C3. \<open>exchange\<close> with \<open>v\<close> returns the value the cell held immediately before and leaves
  the cell holding \<open>v\<close>, for every cell and every \<open>v\<close>. In particular \<open>exchange\<close> with 7
  on a cell holding 3 returns 3, and a following \<open>load\<close> returns 7.
\<close>

theorem exchange_returns_prior:
  "(\<exists>c1 a. exchange c v = Some (cell_value c, c1, a) \<and> cell_value c1 = v) \<and>
   (\<exists>c1 a1 a2. exchange \<lparr>cell_value = 3\<rparr> 7 = Some (3, c1, a1) \<and> load c1 = Some (7, c1, a2))"
  by (simp add: load_eq exchange_eq)

text \<open>
  C4. \<open>load\<close> returns the value the cell currently holds and is a pure read: the cell
  after the call is the cell before it.
\<close>

theorem load_is_pure_read:
  "\<exists>a. load c = Some (cell_value c, c, a)"
  by (simp add: load_eq)

text \<open>
  C5. \<open>store\<close> of \<open>v\<close> cannot fail and writes \<open>v\<close> unconditionally: for every cell and
  every \<open>v\<close> the call is defined, and the resulting cell holds \<open>v\<close> whatever it held
  before. It returns nothing: its result is a cell and an action, with no value.
\<close>

theorem store_cannot_fail:
  "store c v \<noteq> None \<and> (\<exists>c1 a. store c v = Some (c1, a) \<and> cell_value c1 = v)"
  by (simp add: store_eq)

text \<open>
  C7. The memory orderings: the access that \<open>store\<close> performs is relaxed, the one that
  \<open>load\<close> performs is acquire, and the one that \<open>exchange\<close> performs is release.
\<close>

theorem memory_orderings:
  "(\<exists>c1 a. store c v = Some (c1, a) \<and> order_of a = ATOMIC_RELAXED) \<and>
   (\<exists>r c1 a. load c = Some (r, c1, a) \<and> order_of a = ATOMIC_ACQUIRE) \<and>
   (\<exists>r c1 a. exchange c v = Some (r, c1, a) \<and> order_of a = ATOMIC_RELEASE)"
  by (simp add: store_eq load_eq exchange_eq)

text \<open>
  C9. \<open>store\<close> and \<open>exchange\<close> have the same effect on the cell: for every cell and
  every \<open>v\<close>, both leave the same cell \<open>c1\<close>. They differ in what they return and in
  the action performed.
\<close>

theorem store_exchange_same_cell:
  "\<exists>c1 a1 r a2. store c v = Some (c1, a1) \<and> exchange c v = Some (r, c1, a2)"
  by (simp add: store_eq exchange_eq)

text \<open>
  C10. Exchange round trip: for every cell and every \<open>v\<close>, with \<open>r\<close> the value returned
  by \<open>exchange\<close> with \<open>v\<close>, a following \<open>exchange\<close> with \<open>r\<close> returns \<open>v\<close> and leaves
  the cell as it was at the start.
\<close>

theorem exchange_roundtrip:
  "\<exists>r c1 a1 a2. exchange c v = Some (r, c1, a1) \<and> exchange c1 r = Some (v, c, a2)"
  by (simp add: exchange_eq)

end
